theory Spec2Isabelle
  imports Main "HOL-Library.Sublist"
begin

section \<open>JavaScript values and strings\<close>

text \<open>
  A property of a JavaScript object is in one of three states: the object has no such
  own property, it has the property with the value \<open>undefined\<close>, or it has the
  property with a defined value. Reading the property gives \<open>undefined\<close> in the
  first two states; object spread (\<^verbatim>\<open>{ ...a, ...b }\<close>) tells them apart, since it
  copies every own property of \<open>b\<close>, also one whose value is \<open>undefined\<close>.
\<close>

datatype 'a property = Absent | Undefined | Defined 'a

text \<open>Reading a property: \<open>None\<close> stands for \<open>undefined\<close>.\<close>

fun read :: "'a property \<Rightarrow> 'a option" where
  "read Absent = None"
| "read Undefined = None"
| "read (Defined v) = Some v"

text \<open>One property of the object spread \<^verbatim>\<open>{ ...a, ...b }\<close>: the later object wins
  wherever it has the property.\<close>

fun over :: "'a property \<Rightarrow> 'a property \<Rightarrow> 'a property" where
  "over old Absent = old"
| "over old Undefined = Undefined"
| "over old (Defined v) = Defined v"

text \<open>String conversion of a \<^verbatim>\<open>string | undefined\<close>, as a template literal
  \<^verbatim>\<open>`${x}`\<close> and the replacement argument of \<^verbatim>\<open>String.prototype.replace\<close>
  perform it.\<close>

fun toString :: "string option \<Rightarrow> string" where
  "toString None = ''undefined''"
| "toString (Some s) = s"

text \<open>Truthiness of a \<^verbatim>\<open>string | undefined\<close>: \<open>undefined\<close> and the empty string
  are falsy.\<close>

fun truthy :: "string option \<Rightarrow> bool" where
  "truthy None = False"
| "truthy (Some s) = (s \<noteq> [])"

text \<open>
  Strings are lists of characters. \<^verbatim>\<open>s.indexOf(pat)\<close>: the first position at which
  \<open>pat\<close> occurs in \<open>s\<close>, if any.
\<close>

fun indexOf :: "string \<Rightarrow> string \<Rightarrow> nat option" where
  "indexOf [] pat = (if pat = [] then Some 0 else None)"
| "indexOf (c # s) pat =
     (if prefix pat (c # s) then Some 0 else map_option Suc (indexOf s pat))"

text \<open>
  The replacement text of \<^verbatim>\<open>replace\<close> with a string pattern (ECMAScript's
  GetSubstitution with no capture groups): \<^verbatim>\<open>$$\<close> gives a dollar sign, \<^verbatim>\<open>$&\<close>
  the matched text, a dollar sign followed by a backquote the text before the match, a
  dollar sign followed by an apostrophe the text after it; every other character,
  also a dollar sign followed by anything else, stands for itself.
\<close>

fun getSubstitution :: "string \<Rightarrow> string \<Rightarrow> string \<Rightarrow> string \<Rightarrow> string" where
  "getSubstitution matched preceding following [] = []"
| "getSubstitution matched preceding following [c] = [c]"
| "getSubstitution matched preceding following (c # d # r) =
     (if c = CHR ''$'' \<and> d = CHR ''$'' then CHR ''$'' # getSubstitution matched preceding following r
      else if c = CHR ''$'' \<and> d = CHR ''&'' then matched @ getSubstitution matched preceding following r
      else if c = CHR ''$'' \<and> d = CHR 0x60 then preceding @ getSubstitution matched preceding following r
      else if c = CHR ''$'' \<and> d = CHR 0x27 then following @ getSubstitution matched preceding following r
      else c # getSubstitution matched preceding following (d # r))"

text \<open>\<^verbatim>\<open>s.replace(pat, rep)\<close> with a string pattern: only the first occurrence of
  \<open>pat\<close> is replaced; a string without an occurrence is returned as it is.\<close>

definition String_replace :: "string \<Rightarrow> string \<Rightarrow> string \<Rightarrow> string" where
  "String_replace s pat rep =
     (case indexOf s pat of
        None \<Rightarrow> s
      | Some i \<Rightarrow>
          take i s
          @ getSubstitution pat (take i s) (drop (i + length pat) s) rep
          @ drop (i + length pat) s)"

section \<open>S3DB: the process-wide configuration\<close>

text \<open>
  Modelled from the spec: the class \<^verbatim>\<open>S3DBConfiguration\<close> (\<^verbatim>\<open>db/Configuration\<close>) is
  not among the sources. The spec gives the store the four fields
  \<^verbatim>\<open>{ baseName, stage, bucketPattern, region }\<close>, and \<^verbatim>\<open>S3DB.update\<close> declares each of
  them as an optional string.
\<close>

record S3DBConfiguration =
  baseName :: "string property"
  stage :: "string property"
  bucketPattern :: "string property"
  region :: "string property"

text \<open>
  \<^verbatim>\<open>S3DB.update(configuration)\<close>: the static field becomes
  \<^verbatim>\<open>{ ...this.configuration, ...configuration }\<close>. The first argument is the value
  of the static field before the call, the result its value after it.
\<close>

definition update :: "S3DBConfiguration \<Rightarrow> S3DBConfiguration \<Rightarrow> S3DBConfiguration" where
  "update this_configuration configuration =
     \<lparr> baseName = over (baseName this_configuration) (baseName configuration),
       stage = over (stage this_configuration) (stage configuration),
       bucketPattern = over (bucketPattern this_configuration) (bucketPattern configuration),
       region = over (region this_configuration) (region configuration) \<rparr>"

text \<open>\<^verbatim>\<open>S3DB.getRegion()\<close>: \<^verbatim>\<open>this.configuration.region || 'us-west-2'\<close>.\<close>

definition getRegion :: "S3DBConfiguration \<Rightarrow> string" where
  "getRegion this_configuration =
     (if truthy (read (region this_configuration))
      then toString (read (region this_configuration))
      else ''us-west-2'')"

text \<open>
  What the code raises: \<^verbatim>\<open>Error('No type was provided.')\<close> and
  \<^verbatim>\<open>Error('The configuration has no name defined, ...')\<close> in the constructor of
  part_000, the \<^verbatim>\<open>TypeError\<close> for a type without decorator metadata in the constructor
  of Collection.ts, and the \<^verbatim>\<open>TypeError\<close> of the runtime for a method call on
  \<open>undefined\<close>.
\<close>

datatype error =
    NoTypeProvided
  | NoNameDefined
  | NotDecorated
  | TypeError

text \<open>
  \<^verbatim>\<open>S3DB.getCollectionFQN(name)\<close>: four \<^verbatim>\<open>replace\<close> calls chained on the bucket
  pattern. Calling \<^verbatim>\<open>replace\<close> on an undefined pattern raises a \<^verbatim>\<open>TypeError\<close>.
\<close>

definition getCollectionFQN :: "S3DBConfiguration \<Rightarrow> string \<Rightarrow> error + string" where
  "getCollectionFQN this_configuration name =
     (case read (bucketPattern this_configuration) of
        None \<Rightarrow> Inl TypeError
      | Some pattern \<Rightarrow>
          Inr (String_replace
                (String_replace
                  (String_replace
                    (String_replace pattern ''{{stage}}'' (toString (read (stage this_configuration))))
                    ''{{region}}'' (getRegion this_configuration))
                  ''{{baseName}}'' (toString (read (baseName this_configuration))))
                ''{{bucketName}}'' name))"

section \<open>Collection (src/unnamed/part_000)\<close>

text \<open>
  \<^verbatim>\<open>String.prototype.toLowerCase\<close> is a function of the runtime, with the case
  mappings of Unicode behind it. The definitions below take it as their first
  parameter, \<open>toLowerCase\<close>, and what is proved of them holds for every such function.
\<close>

text \<open>The constructor's first argument, \<^verbatim>\<open>type: string | Of\<close>: a string, or a type
  descriptor, of which the constructor reads the property \<^verbatim>\<open>name\<close> only (\<open>None\<close>
  when the descriptor has none).\<close>

datatype type_arg = TypeName string | TypeDescriptor "string option"

text \<open>Values of the further options of a collection (page sizes and the like).\<close>

datatype option_value = JUndefined | JNumber int | JString string | JBoolean bool

text \<open>
  Modelled from the spec: the class \<^verbatim>\<open>CollectionConfiguration\<close> is not among the
  sources. The spec describes it as \<^verbatim>\<open>{ name, type, arbitrary collection-level
  options }\<close>; the constructor reads \<^verbatim>\<open>name\<close> and writes \<^verbatim>\<open>type\<close>.
\<close>

record CollectionConfiguration =
  name :: "string property"
  type :: "type_arg property"
  options :: "string \<rightharpoonup> option_value"

text \<open>Object spread of two configurations, \<^verbatim>\<open>{ ...a, ...b }\<close>, and of a configuration
  with a registry answer that may be \<open>undefined\<close> (spreading \<open>undefined\<close> adds
  nothing).\<close>

definition spread :: "CollectionConfiguration \<Rightarrow> CollectionConfiguration \<Rightarrow> CollectionConfiguration" where
  "spread a b =
     \<lparr> name = over (name a) (name b),
       type = over (type a) (type b),
       options = options a ++ options b \<rparr>"

fun spread_resolved :: "CollectionConfiguration \<Rightarrow> CollectionConfiguration option \<Rightarrow> CollectionConfiguration" where
  "spread_resolved a None = a"
| "spread_resolved a (Some b) = spread a b"

text \<open>
  Modelled from the spec: the base class \<^verbatim>\<open>CollectionBehavior\<close> and five of the six
  behaviour classes are not among the sources. The spec binds each behaviour at
  construction to the configuration, the backend client, the bucket name and the
  prefix; \<^verbatim>\<open>HeadBehavior\<close> reads the bucket name as \<^verbatim>\<open>this.fullBucketName\<close>. The client
  handle, created fresh for every collection, carries nothing the constructor computes.
\<close>

record Behavior =
  behaviorConfiguration :: CollectionConfiguration
  fullBucketName :: string
  behaviorIdPrefix :: "string option"

record Collection =
  configuration :: CollectionConfiguration
  idPrefix :: "string option"
  headBehavior :: Behavior
  existsBehavior :: Behavior
  loadBehavior :: Behavior
  saveBheavior :: Behavior
  deleteBehavior :: Behavior
  findBehavior :: Behavior

text \<open>Line 35: \<^verbatim>\<open>typeof type === 'string' ? type : `${(type as any).name}`\<close>.\<close>

fun typeName :: "type_arg \<Rightarrow> string" where
  "typeName (TypeName s) = s"
| "typeName (TypeDescriptor n) = toString n"

text \<open>
  Lines 42 and 43: the registry is asked for the lower-cased name, and the
  configuration is
  \<^verbatim>\<open>{ ...new CollectionConfiguration(), ...resolvedConfiguration, ...{ type } }\<close>.
  The defaults (\<^verbatim>\<open>new CollectionConfiguration()\<close>) and the registry
  (\<^verbatim>\<open>CollectionRegistry.instance().resolve\<close>) are not among the sources and are
  parameters, after the lower-casing function.
\<close>

definition effectiveConfiguration ::
  "(string \<Rightarrow> string) \<Rightarrow> CollectionConfiguration
   \<Rightarrow> (string \<Rightarrow> CollectionConfiguration option) \<Rightarrow> type_arg
   \<Rightarrow> CollectionConfiguration" where
  "effectiveConfiguration toLowerCase defaults resolve ty =
     spread
       (spread_resolved defaults (resolve (toLowerCase (typeName ty))))
       \<lparr> name = Absent, type = Defined ty, options = Map.empty \<rparr>"

text \<open>
  The constructor. It raises \<^verbatim>\<open>Error('No type was provided.')\<close> for an empty name
  (line 40) and \<^verbatim>\<open>Error('The configuration has no name defined, ...')\<close> for a
  configuration whose name is falsy (line 45); otherwise it computes the bucket name
  from the process-wide configuration as it is at that moment and hands it, with the
  configuration and the prefix, to each of the six behaviours.
\<close>

definition Collection_new ::
  "(string \<Rightarrow> string) \<Rightarrow> CollectionConfiguration
   \<Rightarrow> (string \<Rightarrow> CollectionConfiguration option) \<Rightarrow> S3DBConfiguration
   \<Rightarrow> type_arg \<Rightarrow> string option \<Rightarrow> error + Collection" where
  "Collection_new toLowerCase defaults resolve s3db ty idPrefix' =
     (if typeName ty = [] then Inl NoTypeProvided
      else
        let this_configuration = effectiveConfiguration toLowerCase defaults resolve ty in
        if \<not> truthy (read (name this_configuration)) then Inl NoNameDefined
        else
          (case getCollectionFQN s3db (toString (read (name this_configuration))) of
             Inl e \<Rightarrow> Inl e
           | Inr bucket \<Rightarrow>
               let b = \<lparr> behaviorConfiguration = this_configuration,
                         fullBucketName = bucket,
                         behaviorIdPrefix = idPrefix' \<rparr>
               in Inr \<lparr> configuration = this_configuration,
                        idPrefix = idPrefix',
                        headBehavior = b,
                        existsBehavior = b,
                        loadBehavior = b,
                        saveBheavior = b,
                        deleteBehavior = b,
                        findBehavior = b \<rparr>))"

text \<open>\<^verbatim>\<open>subCollection(prefix, newType)\<close>, lines 82 to 84:
  \<^verbatim>\<open>new Collection(newType, `${this.idPrefix}${prefix}`)\<close>.\<close>

definition subCollection ::
  "(string \<Rightarrow> string) \<Rightarrow> CollectionConfiguration
   \<Rightarrow> (string \<Rightarrow> CollectionConfiguration option) \<Rightarrow> S3DBConfiguration
   \<Rightarrow> Collection \<Rightarrow> string \<Rightarrow> type_arg \<Rightarrow> error + Collection" where
  "subCollection toLowerCase defaults resolve s3db this prefix' newType =
     Collection_new toLowerCase defaults resolve s3db newType
       (Some (toString (idPrefix this) @ prefix'))"


section \<open>Collection (src/src/collection/Collection.ts)\<close>

text \<open>
  The sources hold a second revision of the class, which takes the configuration of a
  type from decorator metadata (\<^verbatim>\<open>getMetadata(type)\<close>, not among the sources and a
  parameter here) instead of the registry. Its constructor hands each behaviour the
  type, the configuration, the client, the bucket name, the name, the logger and the
  prefix; its \<^verbatim>\<open>subCollection\<close> (lines 78 to 80) has the same body as the one above.
\<close>

record Behavior_ts =
  type_ts :: type_arg
  configuration_ts :: CollectionConfiguration
  fullBucketName_ts :: string
  name_ts :: "string option"
  behaviorIdPrefix_ts :: "string option"

record Collection_ts =
  collectionType_ts :: type_arg
  idPrefix_ts :: "string option"
  headBehavior_ts :: Behavior_ts
  existsBehavior_ts :: Behavior_ts
  loadBehavior_ts :: Behavior_ts
  saveBheavior_ts :: Behavior_ts
  deleteBehavior_ts :: Behavior_ts
  findBehavior_ts :: Behavior_ts

text \<open>The constructor raises a \<^verbatim>\<open>TypeError\<close> (\<open>NotDecorated\<close>) for a type without
  metadata. It does not check \<^verbatim>\<open>metadata.name\<close>: an undefined name reaches
  \<^verbatim>\<open>replace\<close> as the text \<^verbatim>\<open>undefined\<close>.\<close>

definition Collection_ts_new ::
  "(type_arg \<Rightarrow> CollectionConfiguration option) \<Rightarrow> S3DBConfiguration
   \<Rightarrow> type_arg \<Rightarrow> string option \<Rightarrow> error + Collection_ts" where
  "Collection_ts_new getMetadata s3db ty idPrefix' =
     (case getMetadata ty of
        None \<Rightarrow> Inl NotDecorated
      | Some metadata \<Rightarrow>
          (case getCollectionFQN s3db (toString (read (name metadata))) of
             Inl e \<Rightarrow> Inl e
           | Inr bucket \<Rightarrow>
               let b = \<lparr> type_ts = ty,
                         configuration_ts = metadata,
                         fullBucketName_ts = bucket,
                         name_ts = read (name metadata),
                         behaviorIdPrefix_ts = idPrefix' \<rparr>
               in Inr \<lparr> collectionType_ts = ty,
                        idPrefix_ts = idPrefix',
                        headBehavior_ts = b,
                        existsBehavior_ts = b,
                        loadBehavior_ts = b,
                        saveBheavior_ts = b,
                        deleteBehavior_ts = b,
                        findBehavior_ts = b \<rparr>))"

definition subCollection_ts ::
  "(type_arg \<Rightarrow> CollectionConfiguration option) \<Rightarrow> S3DBConfiguration
   \<Rightarrow> Collection_ts \<Rightarrow> string \<Rightarrow> type_arg \<Rightarrow> error + Collection_ts" where
  "subCollection_ts getMetadata s3db this prefix' newType =
     Collection_ts_new getMetadata s3db newType (Some (toString (idPrefix_ts this) @ prefix'))"

section \<open>HeadBehavior (src/unnamed/part_001)\<close>

text \<open>
  The backend client is a collaborator: \<^verbatim>\<open>s3.headObject(parameters).promise()\<close>
  resolves with a response or rejects with an error, \<^verbatim>\<open>buildS3Metadata\<close> turns a
  response into metadata (and, running inside the \<^verbatim>\<open>try\<close> block, may raise), and
  \<^verbatim>\<open>handleError(error, bucket, id)\<close> gives the value that \<^verbatim>\<open>head\<close> raises. None of
  the three is among the sources; they are the fields of the client.
\<close>

record HeadObjectRequest =
  Bucket :: string
  Key :: string

record ('e, 'r, 'm, 'x) S3Client =
  headObject :: "HeadObjectRequest \<Rightarrow> 'e + 'r"
  buildS3Metadata :: "'r \<Rightarrow> 'e + 'm"
  handleError :: "'e \<Rightarrow> string \<Rightarrow> string \<Rightarrow> 'x"

text \<open>
  \<^verbatim>\<open>head(id)\<close>: a rejected promise is \<open>Inl\<close>, a resolved one \<open>Inr\<close>. The
  \<^verbatim>\<open>catch\<close> block has one statement, \<^verbatim>\<open>throw this.s3Client.handleError(error,
  this.fullBucketName, id)\<close>, for every error. \<^verbatim>\<open>adjustId\<close>, a method of the base class
  that is not among the sources, is a parameter.
\<close>

definition head ::
  "('e, 'r, 'm, 'x) S3Client \<Rightarrow> (string \<Rightarrow> string) \<Rightarrow> string \<Rightarrow> string \<Rightarrow> 'x + 'm" where
  "head s3Client adjustId this_fullBucketName id' =
     (case headObject s3Client \<lparr> Bucket = this_fullBucketName, Key = adjustId id' \<rparr> of
        Inl error \<Rightarrow> Inl (handleError s3Client error this_fullBucketName id')
      | Inr response \<Rightarrow>
          (case buildS3Metadata s3Client response of
             Inl error \<Rightarrow> Inl (handleError s3Client error this_fullBucketName id')
           | Inr metadata \<Rightarrow> Inr metadata))"

text \<open>
  \<^verbatim>\<open>Collection.head(id)\<close> (part_000, lines 86 to 88) forwards to the head behaviour
  of the collection. The process-wide configuration in force at the time of the call is
  the first parameter: the method, like \<^verbatim>\<open>HeadBehavior.head\<close>, has no reference to
  \<^verbatim>\<open>S3DB\<close> and does not read it.
\<close>

definition Collection_head ::
  "S3DBConfiguration \<Rightarrow> ('e, 'r, 'm, 'x) S3Client \<Rightarrow> (string \<Rightarrow> string) \<Rightarrow> Collection \<Rightarrow> string
   \<Rightarrow> 'x + 'm" where
  "Collection_head s3db s3Client adjustId this id' =
     head s3Client adjustId (fullBucketName (headBehavior this)) id'"

section \<open>The key resolver\<close>

text \<open>
  Modelled from the spec: \<^verbatim>\<open>adjustId\<close> of \<^verbatim>\<open>CollectionBehavior\<close>, which computes the
  storage key of an id, is not among the sources. The spec's contract
  \<^verbatim>\<open>toKey(id, prefix)\<close>: with an undefined or empty prefix the key is the id; else, if
  the id already starts with the prefix, the key is the id; else the key is the prefix
  followed by the id.
\<close>

fun toKey :: "string \<Rightarrow> string option \<Rightarrow> string" where
  "toKey id' None = id'"
| "toKey id' (Some p) = (if p = [] then id' else if prefix p id' then id' else p @ id')"

section \<open>Statements to compare the code with\<close>

text \<open>
  The spec's bucket-name templating, after its words: one pass over the template from
  left to right; where a placeholder of the token list begins, its value is written out
  literally and the scan goes on behind the placeholder; every other character is
  copied.
\<close>

fun substitute_single_pass :: "(string \<times> string) list \<Rightarrow> string \<Rightarrow> string" where
  "substitute_single_pass tokens [] = []"
| "substitute_single_pass tokens (c # s) =
     (case find (\<lambda>(p, v). p \<noteq> [] \<and> prefix p (c # s)) tokens of
        None \<Rightarrow> c # substitute_single_pass tokens s
      | Some (p, v) \<Rightarrow> v @ substitute_single_pass tokens (drop (length p - 1) s))"

text \<open>
  What one \<^verbatim>\<open>replace\<close> step of the code does, said without an index: \<open>s'\<close> is \<open>s\<close>
  with the first occurrence of \<open>pat\<close> (the one before which no occurrence begins)
  replaced by the expansion of \<open>rep\<close>, and \<open>s\<close> itself when \<open>pat\<close> does not occur.
\<close>

definition replaces_first :: "string \<Rightarrow> string \<Rightarrow> string \<Rightarrow> string \<Rightarrow> bool" where
  "replaces_first pat rep s s' =
     (if sublist pat s
      then \<exists>pre post. s = pre @ pat @ post \<and> \<not> sublist pat (pre @ butlast pat)
             \<and> s' = pre @ getSubstitution pat pre post rep @ post
      else s' = s)"

section \<open>Example data\<close>

text \<open>
  For the examples, \<^verbatim>\<open>toLowerCase\<close> on strings of characters up to U+00FF: the
  letters A to Z and the capital letters U+00C0 to U+00DE (but not the multiplication
  sign U+00D7) move up by 32; every other character up to U+00FF has no other lower
  case and stays.
\<close>

definition toLowerCase_latin1_char :: "char \<Rightarrow> char" where
  "toLowerCase_latin1_char c =
     (if (65 \<le> (of_char c :: nat) \<and> (of_char c :: nat) \<le> 90)
         \<or> (192 \<le> (of_char c :: nat) \<and> (of_char c :: nat) \<le> 222 \<and> (of_char c :: nat) \<noteq> 215)
      then char_of ((of_char c :: nat) + 32) else c)"

definition toLowerCase_latin1 :: "string \<Rightarrow> string" where
  "toLowerCase_latin1 s = map toLowerCase_latin1_char s"

text \<open>The spec's examples: a process-wide configuration, defaults with a page size,
  and a registry with one entry; and defaults that have a name of their own.\<close>

definition example_named_defaults :: CollectionConfiguration where
  "example_named_defaults =
     \<lparr> name = Defined ''documents'', type = Absent, options = [''pageSize'' \<mapsto> JNumber 50] \<rparr>"

definition example_s3db :: S3DBConfiguration where
  "example_s3db =
     \<lparr> baseName = Defined ''app'', stage = Defined ''prod'',
       bucketPattern = Defined ''{{baseName}}-{{stage}}-{{bucketName}}'', region = Absent \<rparr>"

definition example_defaults :: CollectionConfiguration where
  "example_defaults = \<lparr> name = Absent, type = Absent, options = [''pageSize'' \<mapsto> JNumber 50] \<rparr>"

definition example_registry :: "string \<Rightarrow> CollectionConfiguration option" where
  "example_registry =
     [''users'' \<mapsto> \<lparr> name = Defined ''users'', type = Absent,
                       options = [''pageSize'' \<mapsto> JNumber 100] \<rparr>]"

text \<open>Decorator metadata for the same type, for the second revision.\<close>

definition example_metadata :: "type_arg \<Rightarrow> CollectionConfiguration option" where
  "example_metadata =
     [TypeDescriptor (Some ''Users'') \<mapsto>
        \<lparr> name = Defined ''users'', type = Absent, options = Map.empty \<rparr>]"

text \<open>The collection that the constructor of part_000 builds from these data for the
  type name \<^verbatim>\<open>Users\<close> and a given prefix, and the one that the constructor of
  Collection.ts builds for the type descriptor.\<close>

definition example_configuration :: CollectionConfiguration where
  "example_configuration =
     \<lparr> name = Defined ''users'', type = Defined (TypeName ''Users''),
       options = [''pageSize'' \<mapsto> JNumber 100] \<rparr>"

definition example_collection :: "string option \<Rightarrow> Collection" where
  "example_collection p =
     (let b = \<lparr> behaviorConfiguration = example_configuration,
                fullBucketName = ''app-prod-users'',
                behaviorIdPrefix = p \<rparr>
      in \<lparr> configuration = example_configuration, idPrefix = p,
           headBehavior = b, existsBehavior = b, loadBehavior = b,
           saveBheavior = b, deleteBehavior = b, findBehavior = b \<rparr>)"

definition example_collection_ts :: "string option \<Rightarrow> Collection_ts" where
  "example_collection_ts p =
     (let b = \<lparr> type_ts = TypeDescriptor (Some ''Users''),
                configuration_ts =
                  \<lparr> name = Defined ''users'', type = Absent, options = Map.empty \<rparr>,
                fullBucketName_ts = ''app-prod-users'',
                name_ts = Some ''users'',
                behaviorIdPrefix_ts = p \<rparr>
      in \<lparr> collectionType_ts = TypeDescriptor (Some ''Users''), idPrefix_ts = p,
           headBehavior_ts = b, existsBehavior_ts = b, loadBehavior_ts = b,
           saveBheavior_ts = b, deleteBehavior_ts = b, findBehavior_ts = b \<rparr>)"

text \<open>A backend client that gives one fixed answer to every \<^verbatim>\<open>headObject\<close> request,
  with an error handler that keeps its three arguments.\<close>

datatype backend_error = NotFound | AccessDenied

definition example_client ::
  "backend_error + unit \<Rightarrow> (backend_error, unit, unit, backend_error \<times> string \<times> string) S3Client" where
  "example_client answer =
     \<lparr> headObject = (\<lambda>request. answer),
       buildS3Metadata = (\<lambda>response. Inr ()),
       handleError = (\<lambda>error bucket id'. (error, bucket, id')) \<rparr>"

text \<open>An update that changes the stage only.\<close>

definition example_update :: S3DBConfiguration where
  "example_update =
     \<lparr> baseName = Absent, stage = Defined ''dev'', bucketPattern = Absent, region = Absent \<rparr>"

section \<open>Facts about replace\<close>

lemma indexOf_None_iff: "indexOf s pat = None \<longleftrightarrow> \<not> sublist pat s"
  by (induction s) (auto simp add: sublist_Cons_right)

lemma indexOf_Some_split:
  "indexOf s pat = Some i \<Longrightarrow> s = take i s @ pat @ drop (i + length pat) s"
proof (induction s arbitrary: i)
  case Nil
  then show ?case by (simp split: if_splits)
next
  case (Cons c s)
  show ?case
  proof (cases "prefix pat (c # s)")
    case True
    with Cons.prems have "i = 0" by simp
    moreover from True obtain post where "c # s = pat @ post" by (auto simp add: prefix_def)
    ultimately show ?thesis by simp
  next
    case False
    with Cons.prems obtain j where j: "indexOf s pat = Some j" "i = Suc j" by auto
    from Cons.IH [OF j(1)] j(2) show ?thesis by simp
  qed
qed

text \<open>No occurrence of the pattern begins before the index that \<open>indexOf\<close> returns.\<close>

lemma indexOf_Some_first:
  "pat \<noteq> [] \<Longrightarrow> indexOf s pat = Some i \<Longrightarrow> \<not> sublist pat (take i s @ butlast pat)"
proof (induction s arbitrary: i)
  case Nil
  then show ?case by simp
next
  case (Cons c s)
  show ?case
  proof (cases "prefix pat (c # s)")
    case True
    with Cons.prems have "i = 0" by simp
    moreover have "\<not> sublist pat (butlast pat)"
    proof
      assume "sublist pat (butlast pat)"
      then have "length pat \<le> length (butlast pat)" by (rule sublist_length_le)
      moreover have "length (butlast pat) < length pat"
        using Cons.prems(1) by (cases pat rule: rev_cases) simp_all
      ultimately show False by linarith
    qed
    ultimately show ?thesis by simp
  next
    case False
    with Cons.prems obtain j where j: "indexOf s pat = Some j" "i = Suc j" by auto
    have ih: "\<not> sublist pat (take j s @ butlast pat)"
      using Cons.IH [OF Cons.prems(1) j(1)] .
    have "\<not> prefix pat (c # take j s @ butlast pat)"
    proof
      assume p: "prefix pat (c # take j s @ butlast pat)"
      have "s = take j s @ pat @ drop (j + length pat) s"
        using indexOf_Some_split [OF j(1)] .
      then have "c # s = (c # take j s @ butlast pat) @ ([last pat] @ drop (j + length pat) s)"
        using Cons.prems(1) by (metis append.assoc append_Cons append_butlast_last_id)
      then have "prefix (c # take j s @ butlast pat) (c # s)"
        by (metis prefixI)
      with p have "prefix pat (c # s)" by (rule prefix_order.trans)
      with False show False by simp
    qed
    with ih j(2) show ?thesis by (simp add: sublist_Cons_right)
  qed
qed

lemma String_replace_replaces_first:
  assumes "pat \<noteq> []"
  shows "replaces_first pat rep s (String_replace s pat rep)"
proof (cases "indexOf s pat")
  case None
  then have "\<not> sublist pat s" by (simp add: indexOf_None_iff)
  then show ?thesis
    by (simp add: replaces_first_def String_replace_def None)
next
  case (Some i)
  then have sub: "sublist pat s"
    using indexOf_None_iff [of s pat] by simp
  let ?pre = "take i s" and ?post = "drop (i + length pat) s"
  have "s = ?pre @ pat @ ?post" using indexOf_Some_split [OF Some] .
  moreover have "\<not> sublist pat (?pre @ butlast pat)"
    using indexOf_Some_first [OF assms Some] .
  moreover have "String_replace s pat rep = ?pre @ getSubstitution pat ?pre ?post rep @ ?post"
    by (simp add: String_replace_def Some)
  ultimately show ?thesis
    using sub unfolding replaces_first_def by auto
qed

lemma String_replace_absent:
  assumes "\<not> sublist pat s"
  shows "String_replace s pat rep = s"
proof -
  from assms have "indexOf s pat = None" by (simp add: indexOf_None_iff)
  then show ?thesis by (simp add: String_replace_def)
qed

lemma getCollectionFQN_verbatim:
  assumes "read (bucketPattern cfg) = Some t"
    and "\<not> sublist ''{{stage}}'' t" and "\<not> sublist ''{{region}}'' t"
    and "\<not> sublist ''{{baseName}}'' t" and "\<not> sublist ''{{bucketName}}'' t"
  shows "getCollectionFQN cfg n = Inr t"
  using assms by (simp add: getCollectionFQN_def String_replace_absent)

lemma no_placeholder_in_example:
  "\<not> sublist ''{{stage}}'' ''app-prod-users''" "\<not> sublist ''{{region}}'' ''app-prod-users''"
  "\<not> sublist ''{{baseName}}'' ''app-prod-users''" "\<not> sublist ''{{bucketName}}'' ''app-prod-users''"
  by (simp_all add: indexOf_None_iff [symmetric])

text \<open>An unset or empty region falls back to \<^verbatim>\<open>us-west-2\<close>.\<close>

lemma getRegion_default:
  "region cfg = Absent \<or> region cfg = Undefined \<or> region cfg = Defined [] \<Longrightarrow>
     getRegion cfg = ''us-west-2''"
  by (auto simp add: getRegion_def)

lemma example_FQN: "getCollectionFQN example_s3db ''users'' = Inr ''app-prod-users''"
  by (simp add: example_s3db_def getCollectionFQN_def String_replace_def)

section \<open>S3DB.update and the bucket name\<close>

lemma over_if: "over x y = (if y = Absent then x else y)"
  by (cases y) simp_all

text \<open>
  C10. \<^verbatim>\<open>S3DB.update\<close> merges partially: whatever the configuration before the call
  and whatever the argument, each of the fields \<^verbatim>\<open>baseName\<close>, \<^verbatim>\<open>stage\<close>,
  \<^verbatim>\<open>bucketPattern\<close> and \<^verbatim>\<open>region\<close> that the argument does not have keeps its value,
  and a field the argument has takes the argument's value.
\<close>

theorem update_partial_merge:
  "baseName (update c a) = (if baseName a = Absent then baseName c else baseName a) \<and>
   stage (update c a) = (if stage a = Absent then stage c else stage a) \<and>
   bucketPattern (update c a) =
     (if bucketPattern a = Absent then bucketPattern c else bucketPattern a) \<and>
   region (update c a) = (if region a = Absent then region c else region a)"
  by (simp add: update_def over_if)

theorem update_partial_merge_witness:
  "update example_s3db
     \<lparr> baseName = Absent, stage = Defined ''dev'', bucketPattern = Absent, region = Undefined \<rparr>
   = \<lparr> baseName = Defined ''app'', stage = Defined ''dev'',
       bucketPattern = Defined ''{{baseName}}-{{stage}}-{{bucketName}}'', region = Undefined \<rparr>"
  using update_partial_merge [of example_s3db
      "\<lparr> baseName = Absent, stage = Defined ''dev'', bucketPattern = Absent, region = Undefined \<rparr>"]
  by (simp add: example_s3db_def update_def)

text \<open>
  C4. With the pattern \<^verbatim>\<open>{{baseName}}-{{stage}}-{{bucketName}}\<close>, base name
  \<^verbatim>\<open>app\<close>, stage \<^verbatim>\<open>prod\<close> and collection name \<^verbatim>\<open>users\<close>, the bucket name is exactly
  \<^verbatim>\<open>app-prod-users\<close>, whatever the region; templating that result again, as the
  pattern, gives it back unchanged. In general, a result in which none of the four
  placeholders is left is a fixed point: as the pattern, it is returned unchanged.
\<close>

theorem getCollectionFQN_example:
  "getCollectionFQN
     \<lparr> baseName = Defined ''app'', stage = Defined ''prod'',
       bucketPattern = Defined ''{{baseName}}-{{stage}}-{{bucketName}}'', region = r \<rparr>
     ''users'' = Inr ''app-prod-users'' \<and>
   getCollectionFQN
     \<lparr> baseName = Defined ''app'', stage = Defined ''prod'',
       bucketPattern = Defined ''app-prod-users'', region = r \<rparr>
     ''users'' = Inr ''app-prod-users'' \<and>
   (getCollectionFQN cfg n = Inr out \<and>
    \<not> sublist ''{{stage}}'' out \<and> \<not> sublist ''{{region}}'' out \<and>
    \<not> sublist ''{{baseName}}'' out \<and> \<not> sublist ''{{bucketName}}'' out \<longrightarrow>
      getCollectionFQN (cfg\<lparr>bucketPattern := Defined out\<rparr>) n = Inr out)"
proof -
  have first: "getCollectionFQN
     \<lparr> baseName = Defined ''app'', stage = Defined ''prod'',
       bucketPattern = Defined ''{{baseName}}-{{stage}}-{{bucketName}}'', region = r \<rparr>
     ''users'' = Inr ''app-prod-users''"
    by (simp add: getCollectionFQN_def String_replace_def)
  have again: "getCollectionFQN
     \<lparr> baseName = Defined ''app'', stage = Defined ''prod'',
       bucketPattern = Defined ''app-prod-users'', region = r \<rparr>
     ''users'' = Inr ''app-prod-users''"
    by (simp add: getCollectionFQN_def String_replace_def)
  have fixed: "getCollectionFQN (cfg\<lparr>bucketPattern := Defined out\<rparr>) n = Inr out"
    if "\<not> sublist ''{{stage}}'' out" "\<not> sublist ''{{region}}'' out"
       "\<not> sublist ''{{baseName}}'' out" "\<not> sublist ''{{bucketName}}'' out"
    using that by (intro getCollectionFQN_verbatim) simp_all
  from first again fixed show ?thesis by blast
qed

theorem getCollectionFQN_example_witness:
  "getCollectionFQN example_s3db ''users'' = Inr ''app-prod-users'' \<and>
   \<not> sublist ''{{stage}}'' ''app-prod-users'' \<and> \<not> sublist ''{{region}}'' ''app-prod-users'' \<and>
   \<not> sublist ''{{baseName}}'' ''app-prod-users'' \<and> \<not> sublist ''{{bucketName}}'' ''app-prod-users'' \<and>
   getCollectionFQN (example_s3db\<lparr>bucketPattern := Defined ''app-prod-users''\<rparr>) ''users''
     = Inr ''app-prod-users''"
  using getCollectionFQN_example [of Absent example_s3db "''users''" "''app-prod-users''"]
    example_FQN no_placeholder_in_example
  by blast

text \<open>
  The code does not substitute as C5 says. A value that holds a placeholder of a later
  step is expanded again: with the pattern \<^verbatim>\<open>{{stage}}\<close>, the stage
  \<^verbatim>\<open>{{baseName}}\<close> and the base name \<^verbatim>\<open>app\<close> the code gives \<^verbatim>\<open>app\<close>, where one
  literal pass gives \<^verbatim>\<open>{{baseName}}\<close>. A value is not taken literally either: the
  stage \<^verbatim>\<open>$&\<close> stands for the matched text, so the pattern \<^verbatim>\<open>{{stage}}\<close> comes back as
  it was, where one literal pass gives \<^verbatim>\<open>$&\<close>.
\<close>

theorem getCollectionFQN_single_pass_counterexample:
  "getCollectionFQN
     \<lparr> baseName = Defined ''app'', stage = Defined ''{{baseName}}'',
       bucketPattern = Defined ''{{stage}}'', region = Absent \<rparr> ''users'' = Inr ''app'' \<and>
   substitute_single_pass
     [(''{{stage}}'', ''{{baseName}}''), (''{{region}}'', ''us-west-2''),
      (''{{baseName}}'', ''app''), (''{{bucketName}}'', ''users'')] ''{{stage}}'' = ''{{baseName}}'' \<and>
   getCollectionFQN
     \<lparr> baseName = Defined ''app'', stage = Defined ''$&'',
       bucketPattern = Defined ''{{stage}}'', region = Absent \<rparr> ''users'' = Inr ''{{stage}}'' \<and>
   substitute_single_pass
     [(''{{stage}}'', ''$&''), (''{{region}}'', ''us-west-2''),
      (''{{baseName}}'', ''app''), (''{{bucketName}}'', ''users'')] ''{{stage}}'' = ''$&''"
  by (simp add: getCollectionFQN_def String_replace_def getRegion_def)

text \<open>
  C5, as the code has it. Once a bucket pattern is set, the substitution does not fail
  and is four \<^verbatim>\<open>replace\<close> steps in the fixed order stage, region, base name,
  bucket name: each step replaces only the first occurrence of its placeholder,
  matched character by character (so case-sensitively), in the string the step before
  it produced. A pattern in which none of the four placeholders occurs is returned
  verbatim, with every unrecognised placeholder in it.
\<close>

theorem getCollectionFQN_sequential:
  assumes "read (bucketPattern cfg) = Some t"
  shows "(\<exists>s1 s2 s3 s4.
            replaces_first ''{{stage}}'' (toString (read (stage cfg))) t s1 \<and>
            replaces_first ''{{region}}'' (getRegion cfg) s1 s2 \<and>
            replaces_first ''{{baseName}}'' (toString (read (baseName cfg))) s2 s3 \<and>
            replaces_first ''{{bucketName}}'' n s3 s4 \<and>
            getCollectionFQN cfg n = Inr s4) \<and>
         (\<not> sublist ''{{stage}}'' t \<and> \<not> sublist ''{{region}}'' t \<and>
          \<not> sublist ''{{baseName}}'' t \<and> \<not> sublist ''{{bucketName}}'' t \<longrightarrow>
            getCollectionFQN cfg n = Inr t)"
proof -
  let ?s1 = "String_replace t ''{{stage}}'' (toString (read (stage cfg)))"
  let ?s2 = "String_replace ?s1 ''{{region}}'' (getRegion cfg)"
  let ?s3 = "String_replace ?s2 ''{{baseName}}'' (toString (read (baseName cfg)))"
  let ?s4 = "String_replace ?s3 ''{{bucketName}}'' n"
  have r: "getCollectionFQN cfg n = Inr ?s4"
    using assms by (simp add: getCollectionFQN_def)
  have 1: "replaces_first ''{{stage}}'' (toString (read (stage cfg))) t ?s1"
    by (rule String_replace_replaces_first) simp
  have 2: "replaces_first ''{{region}}'' (getRegion cfg) ?s1 ?s2"
    by (rule String_replace_replaces_first) simp
  have 3: "replaces_first ''{{baseName}}'' (toString (read (baseName cfg))) ?s2 ?s3"
    by (rule String_replace_replaces_first) simp
  have 4: "replaces_first ''{{bucketName}}'' n ?s3 ?s4"
    by (rule String_replace_replaces_first) simp
  have seq: "\<exists>s1 s2 s3 s4.
            replaces_first ''{{stage}}'' (toString (read (stage cfg))) t s1 \<and>
            replaces_first ''{{region}}'' (getRegion cfg) s1 s2 \<and>
            replaces_first ''{{baseName}}'' (toString (read (baseName cfg))) s2 s3 \<and>
            replaces_first ''{{bucketName}}'' n s3 s4 \<and>
            getCollectionFQN cfg n = Inr s4"
    using 1 2 3 4 r by blast
  have verb: "getCollectionFQN cfg n = Inr t"
    if "\<not> sublist ''{{stage}}'' t" "\<not> sublist ''{{region}}'' t"
       "\<not> sublist ''{{baseName}}'' t" "\<not> sublist ''{{bucketName}}'' t"
    using that assms by (intro getCollectionFQN_verbatim)
  from seq verb show ?thesis by blast
qed

theorem getCollectionFQN_sequential_witness:
  "read (bucketPattern (example_s3db\<lparr>bucketPattern := Defined ''{{Stage}}-{{tenant}}''\<rparr>))
     = Some ''{{Stage}}-{{tenant}}'' \<and>
   \<not> sublist ''{{stage}}'' ''{{Stage}}-{{tenant}}'' \<and>
   \<not> sublist ''{{region}}'' ''{{Stage}}-{{tenant}}'' \<and>
   \<not> sublist ''{{baseName}}'' ''{{Stage}}-{{tenant}}'' \<and>
   \<not> sublist ''{{bucketName}}'' ''{{Stage}}-{{tenant}}'' \<and>
   getCollectionFQN (example_s3db\<lparr>bucketPattern := Defined ''{{Stage}}-{{tenant}}''\<rparr>) ''users''
     = Inr ''{{Stage}}-{{tenant}}''"
proof -
  have h: "read (bucketPattern (example_s3db\<lparr>bucketPattern := Defined ''{{Stage}}-{{tenant}}''\<rparr>))
     = Some ''{{Stage}}-{{tenant}}''"
    by simp
  have n: "\<not> sublist ''{{stage}}'' ''{{Stage}}-{{tenant}}''"
    "\<not> sublist ''{{region}}'' ''{{Stage}}-{{tenant}}''"
    "\<not> sublist ''{{baseName}}'' ''{{Stage}}-{{tenant}}''"
    "\<not> sublist ''{{bucketName}}'' ''{{Stage}}-{{tenant}}''"
    by (simp_all add: indexOf_None_iff [symmetric])
  from getCollectionFQN_sequential [OF h, of "''users''"] h n show ?thesis by blast
qed

section \<open>The key resolver\<close>

text \<open>
  C2. The key resolver is idempotent, \<open>toKey (toKey i p) p = toKey i p\<close>, for every id
  and prefix. With an undefined or an empty prefix the key is the id; an id that
  starts with the prefix is its own key, so a prefix is never applied twice; every
  other id gets the prefix in front.
\<close>

theorem toKey_idempotent:
  "toKey (toKey i p) p = toKey i p \<and>
   toKey i None = i \<and>
   toKey i (Some []) = i \<and>
   toKey (q @ r) (Some q) = q @ r \<and>
   toKey i (Some q) = (if q = [] \<or> prefix q i then i else q @ i)"
  by (cases p) auto

section \<open>Collection: configuration and construction\<close>

text \<open>The example lower-casing on U+00C9, U+00D7 and U+00DF.\<close>

lemma toLowerCase_latin1_beyond_ascii:
  "toLowerCase_latin1 [CHR 0xC9, CHR 0xD7, CHR 0xDF] = [CHR 0xE9, CHR 0xD7, CHR 0xDF]"
  by code_simp

lemma toLowerCase_Users: "toLowerCase_latin1 ''Users'' = ''users''"
  by code_simp

lemma toLowerCase_Orders: "toLowerCase_latin1 ''Orders'' = ''orders''"
  by code_simp

lemma example_registry_users:
  "example_registry ''users'' =
     Some \<lparr> name = Defined ''users'', type = Absent, options = [''pageSize'' \<mapsto> JNumber 100] \<rparr>"
  by (simp add: example_registry_def)

lemma example_registry_orders: "example_registry ''orders'' = None"
  by (simp add: example_registry_def)

lemma example_effectiveConfiguration:
  "effectiveConfiguration toLowerCase_latin1 example_defaults example_registry (TypeName ''Users'')
     = example_configuration"
  by (simp add: effectiveConfiguration_def toLowerCase_Users example_registry_users
      example_defaults_def spread_def example_configuration_def)

lemma example_Collection_new:
  "Collection_new toLowerCase_latin1 example_defaults example_registry example_s3db (TypeName ''Users'') p =
     Inr (example_collection p)"
  by (simp add: Collection_new_def example_effectiveConfiguration example_FQN
      example_collection_def example_configuration_def Let_def)

lemma example_Collection_ts_new:
  "Collection_ts_new example_metadata example_s3db (TypeDescriptor (Some ''Users'')) p =
     Inr (example_collection_ts p)"
  by (simp add: Collection_ts_new_def example_metadata_def example_FQN
      example_collection_ts_def Let_def)

lemma idPrefix_example_collection: "idPrefix (example_collection p) = p"
  by (simp add: example_collection_def Let_def)

lemma idPrefix_example_collection_ts: "idPrefix_ts (example_collection_ts p) = p"
  by (simp add: example_collection_ts_def Let_def)

text \<open>What a successful construction returns.\<close>

lemma Collection_new_Inr:
  assumes "Collection_new lc d r s ty p = Inr c"
  shows "\<exists>bucket.
     getCollectionFQN s (toString (read (name (effectiveConfiguration lc d r ty)))) = Inr bucket
     \<and> c = (let b = \<lparr> behaviorConfiguration = effectiveConfiguration lc d r ty,
                       fullBucketName = bucket, behaviorIdPrefix = p \<rparr>
            in \<lparr> configuration = effectiveConfiguration lc d r ty, idPrefix = p,
                 headBehavior = b, existsBehavior = b, loadBehavior = b,
                 saveBheavior = b, deleteBehavior = b, findBehavior = b \<rparr>)"
  using assms by (auto simp add: Collection_new_def Let_def split: if_splits sum.splits)

lemma Collection_new_idPrefix:
  assumes "Collection_new lc d r s ty p = Inr c"
  shows "idPrefix c = p \<and>
     behaviorIdPrefix (headBehavior c) = p \<and> behaviorIdPrefix (existsBehavior c) = p \<and>
     behaviorIdPrefix (loadBehavior c) = p \<and> behaviorIdPrefix (saveBheavior c) = p \<and>
     behaviorIdPrefix (deleteBehavior c) = p \<and> behaviorIdPrefix (findBehavior c) = p"
  using Collection_new_Inr [OF assms] by (auto simp add: Let_def)

lemma Collection_ts_new_idPrefix:
  assumes "Collection_ts_new g s ty p = Inr c"
  shows "idPrefix_ts c = p \<and>
     behaviorIdPrefix_ts (headBehavior_ts c) = p \<and> behaviorIdPrefix_ts (existsBehavior_ts c) = p \<and>
     behaviorIdPrefix_ts (loadBehavior_ts c) = p \<and> behaviorIdPrefix_ts (saveBheavior_ts c) = p \<and>
     behaviorIdPrefix_ts (deleteBehavior_ts c) = p \<and> behaviorIdPrefix_ts (findBehavior_ts c) = p"
  using assms by (auto simp add: Collection_ts_new_def Let_def split: option.splits sum.splits)

text \<open>The constructor succeeds whenever the type name is not empty, the merged
  configuration has a name and a bucket pattern is set.\<close>

lemma Collection_new_succeeds:
  assumes "typeName ty \<noteq> []"
    and "truthy (read (name (effectiveConfiguration lc d r ty)))"
    and "read (bucketPattern s) \<noteq> None"
  shows "\<exists>c. Collection_new lc d r s ty p = Inr c
           \<and> configuration c = effectiveConfiguration lc d r ty"
proof -
  from assms(3) obtain bucket
    where "getCollectionFQN s (toString (read (name (effectiveConfiguration lc d r ty)))) = Inr bucket"
    by (auto simp add: getCollectionFQN_def)
  with assms(1,2) show ?thesis
    by (simp add: Collection_new_def Let_def)
qed

lemma effectiveConfiguration_miss:
  assumes "r (lc (typeName ty)) = None"
  shows "name (effectiveConfiguration lc d r ty) = name d"
    and "options (effectiveConfiguration lc d r ty) = options d"
    and "type (effectiveConfiguration lc d r ty) = Defined ty"
  using assms by (simp_all add: effectiveConfiguration_def spread_def)

lemma example_Collection_new_miss:
  "Collection_new toLowerCase_latin1 example_named_defaults example_registry example_s3db
     (TypeName ''Orders'') None
   = Inr (let c = \<lparr> name = Defined ''documents'', type = Defined (TypeName ''Orders''),
                     options = [''pageSize'' \<mapsto> JNumber 50] \<rparr>;
              b = \<lparr> behaviorConfiguration = c, fullBucketName = ''app-prod-documents'',
                     behaviorIdPrefix = None \<rparr>
          in \<lparr> configuration = c, idPrefix = None,
               headBehavior = b, existsBehavior = b, loadBehavior = b,
               saveBheavior = b, deleteBehavior = b, findBehavior = b \<rparr>)"
  by (simp add: Collection_new_def effectiveConfiguration_def toLowerCase_Orders
      example_registry_orders example_named_defaults_def spread_def example_s3db_def
      getCollectionFQN_def String_replace_def Let_def)

text \<open>
  C1. For every type name and every lower-casing function, the effective configuration
  of a collection is the defaults, overlaid with the registry entry found under the
  lower-cased name, overlaid with the caller's \<^verbatim>\<open>{ type }\<close>: the type is always the
  caller's, the name and every option come from the registry entry where it has them
  and from the defaults otherwise. A collection that is constructed holds exactly this
  configuration, and the constructor does construct one whenever the type name is not
  empty, this configuration has a name and a bucket pattern is set. A registry miss is no
  error: the constructor then goes on with the defaults and the caller's type, and
  succeeds when the defaults have a name. With the defaults \<^verbatim>\<open>{pageSize: 50}\<close> and
  the registry entry \<^verbatim>\<open>{name: "users", pageSize: 100}\<close>, the type name \<^verbatim>\<open>Users\<close>,
  lower-cased to \<^verbatim>\<open>users\<close>, gives the name \<^verbatim>\<open>users\<close> and the page size 100 (and, from
  the caller's binding, the type \<^verbatim>\<open>Users\<close>).
\<close>

theorem effectiveConfiguration_precedence:
  "type (effectiveConfiguration lc d r ty) = Defined ty \<and>
   name (effectiveConfiguration lc d r ty) =
     (case r (lc (typeName ty)) of
        None \<Rightarrow> name d
      | Some e \<Rightarrow> (if name e = Absent then name d else name e)) \<and>
   options (effectiveConfiguration lc d r ty) k =
     (case r (lc (typeName ty)) of
        None \<Rightarrow> options d k
      | Some e \<Rightarrow> (case options e k of None \<Rightarrow> options d k | Some v \<Rightarrow> Some v)) \<and>
   (\<forall>c. Collection_new lc d r s ty p = Inr c \<longrightarrow>
      configuration c = effectiveConfiguration lc d r ty) \<and>
   (typeName ty \<noteq> [] \<and> truthy (read (name (effectiveConfiguration lc d r ty)))
      \<and> read (bucketPattern s) \<noteq> None \<longrightarrow>
      (\<exists>c. Collection_new lc d r s ty p = Inr c
         \<and> configuration c = effectiveConfiguration lc d r ty)) \<and>
   (r (lc (typeName ty)) = None \<and> typeName ty \<noteq> [] \<and> truthy (read (name d))
      \<and> read (bucketPattern s) \<noteq> None \<longrightarrow>
      (\<exists>c. Collection_new lc d r s ty p = Inr c
         \<and> name (configuration c) = name d \<and> options (configuration c) = options d
         \<and> type (configuration c) = Defined ty)) \<and>
   (lc ''Users'' = ''users'' \<longrightarrow>
      effectiveConfiguration lc example_defaults example_registry (TypeName ''Users'') =
        \<lparr> name = Defined ''users'', type = Defined (TypeName ''Users''),
          options = [''pageSize'' \<mapsto> JNumber 100] \<rparr>)"
proof -
  have 1: "type (effectiveConfiguration lc d r ty) = Defined ty"
    by (simp add: effectiveConfiguration_def spread_def)
  have 2: "name (effectiveConfiguration lc d r ty) =
     (case r (lc (typeName ty)) of
        None \<Rightarrow> name d
      | Some e \<Rightarrow> (if name e = Absent then name d else name e))"
    by (simp add: effectiveConfiguration_def spread_def over_if split: option.split)
  have 3: "options (effectiveConfiguration lc d r ty) k =
     (case r (lc (typeName ty)) of
        None \<Rightarrow> options d k
      | Some e \<Rightarrow> (case options e k of None \<Rightarrow> options d k | Some v \<Rightarrow> Some v))"
    by (simp add: effectiveConfiguration_def spread_def map_add_def split: option.split)
  have 4: "\<forall>c. Collection_new lc d r s ty p = Inr c \<longrightarrow>
      configuration c = effectiveConfiguration lc d r ty"
    using Collection_new_Inr [of lc d r s ty p] by (auto simp add: Let_def)
  have 5: "\<exists>c. Collection_new lc d r s ty p = Inr c
         \<and> configuration c = effectiveConfiguration lc d r ty"
    if "typeName ty \<noteq> []" "truthy (read (name (effectiveConfiguration lc d r ty)))"
      "read (bucketPattern s) \<noteq> None"
    using that by (rule Collection_new_succeeds)
  have 6: "\<exists>c. Collection_new lc d r s ty p = Inr c
         \<and> name (configuration c) = name d \<and> options (configuration c) = options d
         \<and> type (configuration c) = Defined ty"
    if miss: "r (lc (typeName ty)) = None" and "typeName ty \<noteq> []" "truthy (read (name d))"
      "read (bucketPattern s) \<noteq> None"
  proof -
    from that have "truthy (read (name (effectiveConfiguration lc d r ty)))"
      by (simp add: effectiveConfiguration_miss)
    with that obtain c where "Collection_new lc d r s ty p = Inr c"
      "configuration c = effectiveConfiguration lc d r ty"
      using Collection_new_succeeds [of ty lc d r s p] by blast
    with miss show ?thesis by (simp add: effectiveConfiguration_miss)
  qed
  have 7: "effectiveConfiguration lc example_defaults example_registry (TypeName ''Users'') =
        \<lparr> name = Defined ''users'', type = Defined (TypeName ''Users''),
          options = [''pageSize'' \<mapsto> JNumber 100] \<rparr>"
    if "lc ''Users'' = ''users''"
    using that by (simp add: effectiveConfiguration_def example_registry_users
        example_defaults_def spread_def)
  from 1 2 3 4 5 6 7 show ?thesis by blast
qed

theorem effectiveConfiguration_precedence_witness:
  "example_registry (toLowerCase_latin1 (typeName (TypeName ''Orders''))) = None \<and>
   typeName (TypeName ''Orders'') \<noteq> [] \<and>
   truthy (read (name example_named_defaults)) \<and>
   read (bucketPattern example_s3db) \<noteq> None \<and>
   (\<exists>c. Collection_new toLowerCase_latin1 example_named_defaults example_registry example_s3db
           (TypeName ''Orders'') None = Inr c
      \<and> configuration c
          = effectiveConfiguration toLowerCase_latin1 example_named_defaults example_registry
              (TypeName ''Orders'')
      \<and> name (configuration c) = Defined ''documents''
      \<and> options (configuration c) ''pageSize'' = Some (JNumber 50)
      \<and> type (configuration c) = Defined (TypeName ''Orders'')) \<and>
   toLowerCase_latin1 ''Users'' = ''users'' \<and>
   effectiveConfiguration toLowerCase_latin1 example_defaults example_registry (TypeName ''Users'') =
     \<lparr> name = Defined ''users'', type = Defined (TypeName ''Users''),
       options = [''pageSize'' \<mapsto> JNumber 100] \<rparr>"
proof -
  have miss: "example_registry (toLowerCase_latin1 (typeName (TypeName ''Orders''))) = None"
    by (simp add: toLowerCase_Orders example_registry_orders)
  have named: "typeName (TypeName ''Orders'') \<noteq> []" by simp
  have dflt: "truthy (read (name example_named_defaults))"
    by (simp add: example_named_defaults_def)
  have pat: "read (bucketPattern example_s3db) \<noteq> None"
    by (simp add: example_s3db_def)
  note t = effectiveConfiguration_precedence [of toLowerCase_latin1 example_named_defaults
      example_registry "TypeName ''Orders''" "''pageSize''" example_s3db None]
  from t miss named dflt pat obtain c
    where c: "Collection_new toLowerCase_latin1 example_named_defaults example_registry
        example_s3db (TypeName ''Orders'') None = Inr c"
      "name (configuration c) = name example_named_defaults"
      "options (configuration c) = options example_named_defaults"
      "type (configuration c) = Defined (TypeName ''Orders'')"
    by blast
  from t c(1) have e: "configuration c
      = effectiveConfiguration toLowerCase_latin1 example_named_defaults example_registry
          (TypeName ''Orders'')"
    by blast
  from c e have built: "\<exists>c. Collection_new toLowerCase_latin1 example_named_defaults
        example_registry example_s3db (TypeName ''Orders'') None = Inr c
      \<and> configuration c
          = effectiveConfiguration toLowerCase_latin1 example_named_defaults example_registry
              (TypeName ''Orders'')
      \<and> name (configuration c) = Defined ''documents''
      \<and> options (configuration c) ''pageSize'' = Some (JNumber 50)
      \<and> type (configuration c) = Defined (TypeName ''Orders'')"
    by (auto simp add: example_named_defaults_def)
  from t toLowerCase_Users
  have ex: "effectiveConfiguration toLowerCase_latin1 example_defaults example_registry
      (TypeName ''Users'') =
     \<lparr> name = Defined ''users'', type = Defined (TypeName ''Users''),
       options = [''pageSize'' \<mapsto> JNumber 100] \<rparr>"
    by blast
  from miss named dflt pat built toLowerCase_Users ex show ?thesis by blast
qed

text \<open>
  C6. Whenever the merged configuration has no name to resolve (the property is
  absent, undefined or empty), the constructor fails: with \<^verbatim>\<open>Error('The configuration
  has no name defined, ...')\<close>, or already with \<^verbatim>\<open>Error('No type was provided.')\<close> when
  the type name is empty. The result is the error alone: no collection and no behaviour
  is built.
\<close>

theorem Collection_new_without_name:
  assumes "\<not> truthy (read (name (effectiveConfiguration lc d r ty)))"
  shows "Collection_new lc d r s ty p
           = Inl (if typeName ty = [] then NoTypeProvided else NoNameDefined)"
  using assms by (simp add: Collection_new_def Let_def)

theorem Collection_new_without_name_witness:
  "\<not> truthy (read (name (effectiveConfiguration toLowerCase_latin1 example_defaults example_registry
        (TypeName ''Orders'')))) \<and>
   Collection_new toLowerCase_latin1 example_defaults example_registry example_s3db (TypeName ''Orders'') None
     = Inl NoNameDefined"
proof -
  have h: "\<not> truthy (read (name (effectiveConfiguration toLowerCase_latin1 example_defaults example_registry
        (TypeName ''Orders''))))"
    by (simp add: effectiveConfiguration_def toLowerCase_Orders example_registry_orders
        example_defaults_def spread_def)
  from Collection_new_without_name [OF h, of example_s3db None] h show ?thesis by simp
qed

text \<open>
  C8. A collection keeps the bucket name that the process-wide configuration gave when
  the collection was constructed: all six behaviours hold that name, and after any
  \<^verbatim>\<open>S3DB.update\<close> a \<^verbatim>\<open>head\<close> on the collection still sends it. A collection
  constructed after the update gets its bucket name from the updated configuration.
\<close>

theorem bucket_name_frozen:
  assumes "Collection_new lc d r s ty p = Inr c"
  shows "getCollectionFQN s (toString (read (name (configuration c))))
           = Inr (fullBucketName (headBehavior c)) \<and>
         fullBucketName (existsBehavior c) = fullBucketName (headBehavior c) \<and>
         fullBucketName (loadBehavior c) = fullBucketName (headBehavior c) \<and>
         fullBucketName (saveBheavior c) = fullBucketName (headBehavior c) \<and>
         fullBucketName (deleteBehavior c) = fullBucketName (headBehavior c) \<and>
         fullBucketName (findBehavior c) = fullBucketName (headBehavior c) \<and>
         Collection_head (update s u) client adj c i
           = head client adj (fullBucketName (headBehavior c)) i \<and>
         (\<forall>c'. Collection_new lc d r (update s u) ty p = Inr c' \<longrightarrow>
            getCollectionFQN (update s u) (toString (read (name (configuration c'))))
              = Inr (fullBucketName (headBehavior c')))"
proof -
  have built: "getCollectionFQN s' (toString (read (name (configuration c'))))
           = Inr (fullBucketName (headBehavior c')) \<and>
         fullBucketName (existsBehavior c') = fullBucketName (headBehavior c') \<and>
         fullBucketName (loadBehavior c') = fullBucketName (headBehavior c') \<and>
         fullBucketName (saveBheavior c') = fullBucketName (headBehavior c') \<and>
         fullBucketName (deleteBehavior c') = fullBucketName (headBehavior c') \<and>
         fullBucketName (findBehavior c') = fullBucketName (headBehavior c')"
    if "Collection_new lc d r s' ty p = Inr c'" for s' c'
    using Collection_new_Inr [OF that] by (auto simp add: Let_def)
  have sent: "Collection_head (update s u) client adj c i
           = head client adj (fullBucketName (headBehavior c)) i"
    by (simp add: Collection_head_def)
  from built [OF assms] built [of "update s u"] sent show ?thesis by blast
qed

theorem bucket_name_frozen_witness:
  "Collection_new toLowerCase_latin1 example_defaults example_registry example_s3db (TypeName ''Users'') None
     = Inr (example_collection None) \<and>
   fullBucketName (headBehavior (example_collection None)) = ''app-prod-users'' \<and>
   getCollectionFQN (update example_s3db example_update) ''users'' = Inr ''app-dev-users'' \<and>
   Collection_head (update example_s3db example_update) (example_client (Inl AccessDenied))
     (\<lambda>k. k) (example_collection None) ''1234''
     = Inl (AccessDenied, ''app-prod-users'', ''1234'')"
proof -
  have h: "Collection_new toLowerCase_latin1 example_defaults example_registry example_s3db (TypeName ''Users'') None
     = Inr (example_collection None)"
    by (rule example_Collection_new)
  have b: "fullBucketName (headBehavior (example_collection None)) = ''app-prod-users''"
    by (simp add: example_collection_def Let_def)
  have u: "getCollectionFQN (update example_s3db example_update) ''users'' = Inr ''app-dev-users''"
    by (simp add: update_def example_s3db_def example_update_def getCollectionFQN_def
        String_replace_def)
  from bucket_name_frozen [OF h, of example_update "example_client (Inl AccessDenied)"
      "\<lambda>k. k" "''1234''"]
  have "Collection_head (update example_s3db example_update) (example_client (Inl AccessDenied))
     (\<lambda>k. k) (example_collection None) ''1234''
     = head (example_client (Inl AccessDenied)) (\<lambda>k. k)
         (fullBucketName (headBehavior (example_collection None))) ''1234''"
    by blast
  with h b u show ?thesis
    by (simp add: head_def example_client_def)
qed

section \<open>Collection: sub-collections\<close>

text \<open>Nesting two sub-collections gives what one call with the concatenated prefix
  gives on the same parent.\<close>

lemma subCollection_nested:
  assumes "subCollection lc d r s this a t1 = Inr child"
  shows "subCollection lc d r s' child b t2 = subCollection lc d r s' this (a @ b) t2"
  using Collection_new_idPrefix [of lc d r s t1 "Some (toString (idPrefix this) @ a)" child] assms
  by (simp add: subCollection_def)

text \<open>
  C3, evaluated on a collection constructed without a prefix. Its sub-collection for
  \<^verbatim>\<open>a/\<close> has the prefix \<^verbatim>\<open>undefineda/\<close> and the sub-collection of that for \<^verbatim>\<open>b/\<close>
  the prefix \<^verbatim>\<open>undefineda/b/\<close>, while a collection constructed with the prefix
  \<^verbatim>\<open>a/b/\<close> has the prefix \<^verbatim>\<open>a/b/\<close>.
\<close>

theorem subCollection_root_prefix_evaluated:
  "Collection_new toLowerCase_latin1 example_defaults example_registry example_s3db (TypeName ''Users'') None
     = Inr (example_collection None) \<and>
   subCollection toLowerCase_latin1 example_defaults example_registry example_s3db (example_collection None)
     ''a/'' (TypeName ''Users'') = Inr (example_collection (Some ''undefineda/'')) \<and>
   subCollection toLowerCase_latin1 example_defaults example_registry example_s3db
     (example_collection (Some ''undefineda/''))
     ''b/'' (TypeName ''Users'') = Inr (example_collection (Some ''undefineda/b/'')) \<and>
   Collection_new toLowerCase_latin1 example_defaults example_registry example_s3db (TypeName ''Users'') (Some ''a/b/'')
     = Inr (example_collection (Some ''a/b/'')) \<and>
   idPrefix (example_collection (Some ''undefineda/b/'')) = Some ''undefineda/b/'' \<and>
   idPrefix (example_collection (Some ''a/b/'')) = Some ''a/b/''"
  by (simp add: subCollection_def example_Collection_new idPrefix_example_collection)

text \<open>
  C9. On a collection without a prefix, \<^verbatim>\<open>subCollection(p, t)\<close> calls the constructor
  with the text \<^verbatim>\<open>undefined\<close> followed by \<open>p\<close>, and the child, when the constructor
  builds one, and each of its behaviours have that prefix, not \<open>p\<close>. Both revisions of
  the class do so.
\<close>

theorem subCollection_undefined_prefix:
  "(idPrefix this = None \<longrightarrow>
      subCollection lc d r s this p t = Collection_new lc d r s t (Some (''undefined'' @ p)) \<and>
      (\<forall>child. subCollection lc d r s this p t = Inr child \<longrightarrow>
         idPrefix child = Some (''undefined'' @ p) \<and> idPrefix child \<noteq> Some p \<and>
         behaviorIdPrefix (headBehavior child) = Some (''undefined'' @ p) \<and>
         behaviorIdPrefix (existsBehavior child) = Some (''undefined'' @ p) \<and>
         behaviorIdPrefix (loadBehavior child) = Some (''undefined'' @ p) \<and>
         behaviorIdPrefix (saveBheavior child) = Some (''undefined'' @ p) \<and>
         behaviorIdPrefix (deleteBehavior child) = Some (''undefined'' @ p) \<and>
         behaviorIdPrefix (findBehavior child) = Some (''undefined'' @ p))) \<and>
   (idPrefix_ts this' = None \<longrightarrow>
      subCollection_ts g s this' p t' = Collection_ts_new g s t' (Some (''undefined'' @ p)) \<and>
      (\<forall>child. subCollection_ts g s this' p t' = Inr child \<longrightarrow>
         idPrefix_ts child = Some (''undefined'' @ p) \<and> idPrefix_ts child \<noteq> Some p \<and>
         behaviorIdPrefix_ts (headBehavior_ts child) = Some (''undefined'' @ p) \<and>
         behaviorIdPrefix_ts (existsBehavior_ts child) = Some (''undefined'' @ p) \<and>
         behaviorIdPrefix_ts (loadBehavior_ts child) = Some (''undefined'' @ p) \<and>
         behaviorIdPrefix_ts (saveBheavior_ts child) = Some (''undefined'' @ p) \<and>
         behaviorIdPrefix_ts (deleteBehavior_ts child) = Some (''undefined'' @ p) \<and>
         behaviorIdPrefix_ts (findBehavior_ts child) = Some (''undefined'' @ p)))"
proof -
  have neq: "''undefined'' @ p \<noteq> p"
  proof
    assume "''undefined'' @ p = p"
    then have "length (''undefined'' @ p) = length p" by simp
    then show False by simp
  qed
  have a: "subCollection lc d r s this p t = Collection_new lc d r s t (Some (''undefined'' @ p))"
    if "idPrefix this = None"
    using that by (simp add: subCollection_def)
  have a': "idPrefix child = Some (''undefined'' @ p) \<and> idPrefix child \<noteq> Some p \<and>
         behaviorIdPrefix (headBehavior child) = Some (''undefined'' @ p) \<and>
         behaviorIdPrefix (existsBehavior child) = Some (''undefined'' @ p) \<and>
         behaviorIdPrefix (loadBehavior child) = Some (''undefined'' @ p) \<and>
         behaviorIdPrefix (saveBheavior child) = Some (''undefined'' @ p) \<and>
         behaviorIdPrefix (deleteBehavior child) = Some (''undefined'' @ p) \<and>
         behaviorIdPrefix (findBehavior child) = Some (''undefined'' @ p)"
    if "idPrefix this = None" and "subCollection lc d r s this p t = Inr child" for child
    using Collection_new_idPrefix [of lc d r s t "Some (''undefined'' @ p)" child] that a neq
    by simp
  have b: "subCollection_ts g s this' p t' = Collection_ts_new g s t' (Some (''undefined'' @ p))"
    if "idPrefix_ts this' = None"
    using that by (simp add: subCollection_ts_def)
  have b': "idPrefix_ts child = Some (''undefined'' @ p) \<and> idPrefix_ts child \<noteq> Some p \<and>
         behaviorIdPrefix_ts (headBehavior_ts child) = Some (''undefined'' @ p) \<and>
         behaviorIdPrefix_ts (existsBehavior_ts child) = Some (''undefined'' @ p) \<and>
         behaviorIdPrefix_ts (loadBehavior_ts child) = Some (''undefined'' @ p) \<and>
         behaviorIdPrefix_ts (saveBheavior_ts child) = Some (''undefined'' @ p) \<and>
         behaviorIdPrefix_ts (deleteBehavior_ts child) = Some (''undefined'' @ p) \<and>
         behaviorIdPrefix_ts (findBehavior_ts child) = Some (''undefined'' @ p)"
    if "idPrefix_ts this' = None" and "subCollection_ts g s this' p t' = Inr child" for child
    using Collection_ts_new_idPrefix [of g s t' "Some (''undefined'' @ p)" child] that b neq
    by simp
  from a a' b b' show ?thesis by blast
qed

theorem subCollection_undefined_prefix_witness:
  "idPrefix (example_collection None) = None \<and>
   subCollection toLowerCase_latin1 example_defaults example_registry example_s3db (example_collection None)
     ''orders/'' (TypeName ''Users'') = Inr (example_collection (Some ''undefinedorders/'')) \<and>
   idPrefix (example_collection (Some ''undefinedorders/'')) = Some ''undefinedorders/'' \<and>
   idPrefix_ts (example_collection_ts None) = None \<and>
   subCollection_ts example_metadata example_s3db (example_collection_ts None)
     ''orders/'' (TypeDescriptor (Some ''Users''))
     = Inr (example_collection_ts (Some ''undefinedorders/'')) \<and>
   idPrefix_ts (example_collection_ts (Some ''undefinedorders/'')) = Some ''undefinedorders/''"
proof -
  have h: "idPrefix (example_collection None) = None"
    by (simp add: idPrefix_example_collection)
  have h': "idPrefix_ts (example_collection_ts None) = None"
    by (simp add: idPrefix_example_collection_ts)
  note t = subCollection_undefined_prefix [of "example_collection None" toLowerCase_latin1 example_defaults
      example_registry example_s3db "''orders/''" "TypeName ''Users''" "example_collection_ts None"
      example_metadata "TypeDescriptor (Some ''Users'')"]
  from t h have a: "subCollection toLowerCase_latin1 example_defaults example_registry example_s3db
      (example_collection None) ''orders/'' (TypeName ''Users'')
      = Collection_new toLowerCase_latin1 example_defaults example_registry example_s3db (TypeName ''Users'')
          (Some (''undefined'' @ ''orders/''))"
    by blast
  from t h' have b: "subCollection_ts example_metadata example_s3db
      (example_collection_ts None) ''orders/'' (TypeDescriptor (Some ''Users''))
      = Collection_ts_new example_metadata example_s3db (TypeDescriptor (Some ''Users''))
          (Some (''undefined'' @ ''orders/''))"
    by blast
  show ?thesis
    by (simp add: a b example_Collection_new example_Collection_ts_new
        idPrefix_example_collection idPrefix_example_collection_ts)
qed

section \<open>HeadBehavior\<close>

text \<open>
  The code does not reduce a not-found answer as C7 says: for an id that the backend
  reports as not found, \<^verbatim>\<open>head\<close> raises what the error handler makes of the error,
  the bucket name and the id; it does not resolve.
\<close>

theorem head_not_found_counterexample:
  "headObject (example_client (Inl NotFound)) \<lparr> Bucket = ''app-prod-users'', Key = ''1234'' \<rparr>
     = Inl NotFound \<and>
   head (example_client (Inl NotFound)) (\<lambda>k. k) ''app-prod-users'' ''1234''
     = Inl (NotFound, ''app-prod-users'', ''1234'')"
  by (simp add: head_def example_client_def)

text \<open>
  C7, as the code has it. For every error of the backend, not-found included,
  \<^verbatim>\<open>head\<close> raises the value that the client's \<^verbatim>\<open>handleError\<close> builds from the error,
  the bucket name and the id as the caller gave it. It resolves only when the backend
  call succeeded, with the metadata built from the response.
\<close>

theorem head_raises_every_backend_error:
  "(headObject cl \<lparr> Bucket = b, Key = adj i \<rparr> = Inl e \<longrightarrow>
      head cl adj b i = Inl (handleError cl e b i)) \<and>
   (head cl' adj' b' i' = Inr m \<longrightarrow>
      (\<exists>response. headObject cl' \<lparr> Bucket = b', Key = adj' i' \<rparr> = Inr response
         \<and> buildS3Metadata cl' response = Inr m))"
proof -
  have raised: "head cl adj b i = Inl (handleError cl e b i)"
    if "headObject cl \<lparr> Bucket = b, Key = adj i \<rparr> = Inl e"
    using that by (simp add: head_def)
  have resolved: "\<exists>response. headObject cl' \<lparr> Bucket = b', Key = adj' i' \<rparr> = Inr response
         \<and> buildS3Metadata cl' response = Inr m"
    if "head cl' adj' b' i' = Inr m"
    using that by (auto simp add: head_def split: sum.splits)
  from raised resolved show ?thesis by blast
qed

theorem head_raises_every_backend_error_witness:
  "headObject (example_client (Inl AccessDenied))
     \<lparr> Bucket = ''app-prod-users'', Key = ''users/1234'' \<rparr> = Inl AccessDenied \<and>
   head (example_client (Inl AccessDenied)) (\<lambda>k. ''users/'' @ k) ''app-prod-users'' ''1234''
     = Inl (AccessDenied, ''app-prod-users'', ''1234'') \<and>
   head (example_client (Inr ())) (\<lambda>k. ''users/'' @ k) ''app-prod-users'' ''1234'' = Inr () \<and>
   headObject (example_client (Inr ()))
     \<lparr> Bucket = ''app-prod-users'', Key = ''users/1234'' \<rparr> = Inr ()"
  using head_raises_every_backend_error [of "example_client (Inl AccessDenied)" "''app-prod-users''"
      "\<lambda>k. ''users/'' @ k" "''1234''" AccessDenied "example_client (Inr ())" "\<lambda>k. ''users/'' @ k"
      "''app-prod-users''" "''1234''" "()"]
  by (simp add: example_client_def head_def)

end
